theory Spec2Isabelle
  imports Main "HOL-Library.Sublist"
begin

section \<open>The voice agent of \<open>src/voice-agent/agent.ts\<close>\<close>

text \<open>
  The module wires a room context, an agent, three provider plugins and a session
  together. Everything it calls is external: the model records every call the module
  issues, in program order, and lets the caller of the model say how each call
  completes.
\<close>

subsection \<open>Completion of external calls\<close>

text \<open>A value thrown by a call, or the reason a promise is rejected with.\<close>

datatype err = Err string

text \<open>
  How an external call ends: it returns (an awaited promise fulfils), it throws (the
  awaited promise rejects), or it never completes.
\<close>

datatype outcome = Done | Fails err | Never

text \<open>The state of the promise an \<open>async\<close> function returns, once nothing more can happen.\<close>

datatype 'a promise = Fulfilled 'a | Rejected err | Pending

subsection \<open>Objects\<close>

text \<open>
  An object is the constructor applied to the argument it was built from. A constructor
  called without an argument, as \<open>new openai.STT()\<close>, has the argument \<open>None\<close>.
\<close>

type_synonym options = "(string \<times> string) list"

record AgentOptions =
  instructions :: string

datatype Agent = Agent AgentOptions

datatype STT = STT "options option"

record LLMOptions =
  model :: string

datatype LLM = LLM LLMOptions

datatype TTS = TTS "options option"

record AgentSessionOptions =
  stt :: STT
  llm :: LLM
  tts :: TTS

datatype AgentSession = AgentSession AgentSessionOptions

datatype Room = Room string

text \<open>The argument of \<open>new ServerOptions\<close>: where the agent definition is.\<close>

record ServerOptions =
  agent :: string

text \<open>The argument of \<open>session.start\<close>.\<close>

record StartOptions =
  agent :: Agent
  room :: Room

text \<open>
  What \<open>session.say\<close> returns: a handle on the queued utterance, whose playout
  settles some time later.
\<close>

record SpeechHandle =
  waitForPlayout :: "unit promise"

text \<open>
  The job context the framework hands to \<open>entry\<close>: the room it is assigned to, and
  how its \<open>connect\<close> operation completes.
\<close>

record JobContext =
  room :: Room
  connect :: outcome

subsection \<open>Calls and the external world\<close>

text \<open>The calls the entry function issues, each with its receiver and arguments.\<close>

datatype call =
    CtxConnect JobContext
  | NewAgent AgentOptions
  | NewSTT "options option"
  | NewLLM LLMOptions
  | NewTTS "options option"
  | NewAgentSession AgentSessionOptions
  | SessionStart AgentSession StartOptions
  | SessionSay AgentSession string

text \<open>
  The imported framework and plugins: for every operation the module uses, how a call
  with given arguments completes; and the handle \<open>say\<close> returns.
\<close>

record deps =
  voice_Agent :: "AgentOptions \<Rightarrow> outcome"
  openai_STT :: "options option \<Rightarrow> outcome"
  openai_LLM :: "LLMOptions \<Rightarrow> outcome"
  elevenlabs_TTS :: "options option \<Rightarrow> outcome"
  voice_AgentSession :: "AgentSessionOptions \<Rightarrow> outcome"
  start :: "AgentSession \<Rightarrow> StartOptions \<Rightarrow> outcome"
  say :: "AgentSession \<Rightarrow> string \<Rightarrow> outcome"
  say_handle :: "AgentSession \<Rightarrow> string \<Rightarrow> SpeechHandle"

subsection \<open>Sequencing\<close>

text \<open>
  A computation takes the calls issued so far and returns how it ended together with
  the calls issued by then. A call that throws or never completes ends the enclosing
  \<open>async\<close> function there: no statement after it runs.
\<close>

type_synonym 'a act = "call list \<Rightarrow> 'a promise \<times> call list"

definition return_act :: "'a \<Rightarrow> 'a act" where
  "return_act v = (\<lambda>tr. (Fulfilled v, tr))"

definition bind_act :: "'a act \<Rightarrow> ('a \<Rightarrow> 'b act) \<Rightarrow> 'b act" where
  "bind_act m f = (\<lambda>tr. case m tr of
       (Fulfilled v, tr') \<Rightarrow> f v tr'
     | (Rejected e, tr') \<Rightarrow> (Rejected e, tr')
     | (Pending, tr') \<Rightarrow> (Pending, tr'))"

text \<open>Issue the call \<open>c\<close>, which completes as \<open>out\<close> and, when it does, yields \<open>v\<close>.\<close>

definition perform :: "call \<Rightarrow> outcome \<Rightarrow> 'a \<Rightarrow> 'a act" where
  "perform c out v = (\<lambda>tr.
     (case out of Done \<Rightarrow> Fulfilled v | Fails e \<Rightarrow> Rejected e | Never \<Rightarrow> Pending,
      tr @ [c]))"

subsection \<open>The operations the module calls\<close>

text \<open>\<open>await ctx.connect()\<close>\<close>

definition ctx_connect :: "JobContext \<Rightarrow> unit act" where
  "ctx_connect ctx = perform (CtxConnect ctx) (connect ctx) ()"

text \<open>\<open>new voice.Agent(opts)\<close>\<close>

definition new_Agent :: "deps \<Rightarrow> AgentOptions \<Rightarrow> Agent act" where
  "new_Agent d opts = perform (NewAgent opts) (voice_Agent d opts) (Agent opts)"

text \<open>\<open>new openai.STT(opts)\<close>\<close>

definition new_STT :: "deps \<Rightarrow> options option \<Rightarrow> STT act" where
  "new_STT d opts = perform (NewSTT opts) (openai_STT d opts) (STT opts)"

text \<open>\<open>new openai.LLM(opts)\<close>\<close>

definition new_LLM :: "deps \<Rightarrow> LLMOptions \<Rightarrow> LLM act" where
  "new_LLM d opts = perform (NewLLM opts) (openai_LLM d opts) (LLM opts)"

text \<open>\<open>new elevenlabs.TTS(opts)\<close>\<close>

definition new_TTS :: "deps \<Rightarrow> options option \<Rightarrow> TTS act" where
  "new_TTS d opts = perform (NewTTS opts) (elevenlabs_TTS d opts) (TTS opts)"

text \<open>\<open>new voice.AgentSession(opts)\<close>\<close>

definition new_AgentSession :: "deps \<Rightarrow> AgentSessionOptions \<Rightarrow> AgentSession act" where
  "new_AgentSession d opts =
     perform (NewAgentSession opts) (voice_AgentSession d opts) (AgentSession opts)"

text \<open>\<open>await session.start(opts)\<close>\<close>

definition session_start :: "deps \<Rightarrow> AgentSession \<Rightarrow> StartOptions \<Rightarrow> unit act" where
  "session_start d session opts = perform (SessionStart session opts) (start d session opts) ()"

text \<open>\<open>session.say(text)\<close>: the call returns its handle at once; nothing awaits it.\<close>

definition session_say :: "deps \<Rightarrow> AgentSession \<Rightarrow> string \<Rightarrow> SpeechHandle act" where
  "session_say d session text =
     perform (SessionSay session text) (say d session text) (say_handle d session text)"

subsection \<open>The entry function\<close>

text \<open>
  The body of \<open>entry\<close>, statement by statement. The properties of the object literal
  passed to \<open>voice.AgentSession\<close> are evaluated in the order they are written, before
  the constructor is called; \<open>ctx.room\<close> is read when the argument of \<open>start\<close> is
  built. The handle \<open>say\<close> returns is dropped.
\<close>

definition entry :: "deps \<Rightarrow> JobContext \<Rightarrow> unit act" where
  "entry d ctx =
     bind_act (ctx_connect ctx) (\<lambda>_.
     bind_act (new_Agent d
        \<lparr>instructions = ''You are a helpful voice assistant. Keep responses concise.''\<rparr>)
        (\<lambda>agent.
     bind_act (new_STT d None) (\<lambda>stt.
     bind_act (new_LLM d \<lparr>model = ''gpt-4''\<rparr>) (\<lambda>llm.
     bind_act (new_TTS d None) (\<lambda>tts.
     bind_act (new_AgentSession d \<lparr>stt = stt, llm = llm, tts = tts\<rparr>) (\<lambda>session.
     bind_act (session_start d session \<lparr>agent = agent, StartOptions.room = room ctx\<rparr>) (\<lambda>_.
     bind_act (session_say d session ''Hello! How can I help you today?'') (\<lambda>_.
     return_act ()))))))))"

text \<open>One run of \<open>entry\<close> on a context: the state of its promise, and the calls it issued.\<close>

definition run :: "deps \<Rightarrow> JobContext \<Rightarrow> unit promise \<times> call list" where
  "run d ctx = entry d ctx []"

definition result :: "deps \<Rightarrow> JobContext \<Rightarrow> unit promise" where
  "result d ctx = fst (run d ctx)"

definition calls :: "deps \<Rightarrow> JobContext \<Rightarrow> call list" where
  "calls d ctx = snd (run d ctx)"

subsection \<open>The calls of a run, as a fixed script\<close>

text \<open>How the call \<open>c\<close> completes in the world \<open>d\<close>.\<close>

definition outcome_of :: "deps \<Rightarrow> call \<Rightarrow> outcome" where
  "outcome_of d c = (case c of
       CtxConnect ctx \<Rightarrow> connect ctx
     | NewAgent opts \<Rightarrow> voice_Agent d opts
     | NewSTT opts \<Rightarrow> openai_STT d opts
     | NewLLM opts \<Rightarrow> openai_LLM d opts
     | NewTTS opts \<Rightarrow> elevenlabs_TTS d opts
     | NewAgentSession opts \<Rightarrow> voice_AgentSession d opts
     | SessionStart session opts \<Rightarrow> start d session opts
     | SessionSay session text \<Rightarrow> say d session text)"

text \<open>
  The bootstrap sequence as the specification words it, for comparison with \<open>entry\<close>:
  (1) connect the context, (2) construct the agent, (3) construct the three providers
  and the session on them, (4) start the session on the agent and the context's room,
  (5) say the greeting.
\<close>

definition bootstrap_sequence :: "JobContext \<Rightarrow> call list" where
  "bootstrap_sequence ctx =
     [CtxConnect ctx,
      NewAgent \<lparr>instructions = ''You are a helpful voice assistant. Keep responses concise.''\<rparr>,
      NewSTT None,
      NewLLM \<lparr>model = ''gpt-4''\<rparr>,
      NewTTS None,
      NewAgentSession \<lparr>stt = STT None, llm = LLM \<lparr>model = ''gpt-4''\<rparr>, tts = TTS None\<rparr>,
      SessionStart
        (AgentSession \<lparr>stt = STT None, llm = LLM \<lparr>model = ''gpt-4''\<rparr>, tts = TTS None\<rparr>)
        \<lparr>agent = Agent
           \<lparr>instructions = ''You are a helpful voice assistant. Keep responses concise.''\<rparr>,
         StartOptions.room = room ctx\<rparr>,
      SessionSay
        (AgentSession \<lparr>stt = STT None, llm = LLM \<lparr>model = ''gpt-4''\<rparr>, tts = TTS None\<rparr>)
        ''Hello! How can I help you today?'']"

text \<open>
  Issuing a list of calls one after the other, each awaited before the next: the run
  stops right after the first call that does not complete.
\<close>

fun follow :: "(call \<Rightarrow> outcome) \<Rightarrow> call list \<Rightarrow> unit promise \<times> call list" where
  "follow f [] = (Fulfilled (), [])"
| "follow f (c # cs) = (case f c of
       Done \<Rightarrow> (fst (follow f cs), c # snd (follow f cs))
     | Fails e \<Rightarrow> (Rejected e, [c])
     | Never \<Rightarrow> (Pending, [c]))"

subsection \<open>Reading a list of calls\<close>

fun is_connect :: "call \<Rightarrow> bool" where
  "is_connect (CtxConnect _) = True"
| "is_connect _ = False"

fun is_new_agent :: "call \<Rightarrow> bool" where
  "is_new_agent (NewAgent _) = True"
| "is_new_agent _ = False"

fun is_new_stt :: "call \<Rightarrow> bool" where
  "is_new_stt (NewSTT _) = True"
| "is_new_stt _ = False"

fun is_new_llm :: "call \<Rightarrow> bool" where
  "is_new_llm (NewLLM _) = True"
| "is_new_llm _ = False"

fun is_new_tts :: "call \<Rightarrow> bool" where
  "is_new_tts (NewTTS _) = True"
| "is_new_tts _ = False"

fun is_new_session :: "call \<Rightarrow> bool" where
  "is_new_session (NewAgentSession _) = True"
| "is_new_session _ = False"

fun is_start :: "call \<Rightarrow> bool" where
  "is_start (SessionStart _ _) = True"
| "is_start _ = False"

fun is_say :: "call \<Rightarrow> bool" where
  "is_say (SessionSay _ _) = True"
| "is_say _ = False"

text \<open>
  \<open>never_before Q P tr\<close>: in \<open>tr\<close>, no call satisfying \<open>Q\<close> is issued unless a call
  satisfying \<open>P\<close> was issued earlier.
\<close>

fun never_before :: "(call \<Rightarrow> bool) \<Rightarrow> (call \<Rightarrow> bool) \<Rightarrow> call list \<Rightarrow> bool" where
  "never_before Q P [] = True"
| "never_before Q P (c # cs) =
     (if Q c then False else if P c then True else never_before Q P cs)"

text \<open>The configuration values a call fixes.\<close>

datatype setting = Instructions string | Model string | Greeting string

fun settings_of :: "call \<Rightarrow> setting list" where
  "settings_of (NewAgent opts) = [Instructions (instructions opts)]"
| "settings_of (NewLLM opts) = [Model (model opts)]"
| "settings_of (SessionSay _ text) = [Greeting text]"
| "settings_of _ = []"

definition settings :: "call list \<Rightarrow> setting list" where
  "settings tr = concat (map settings_of tr)"

subsection \<open>The CLI guard at the end of the module\<close>

text \<open>
  What Node gives the module when it is loaded: \<open>import.meta.url\<close>, \<open>process.argv\<close>,
  and \<open>fileURLToPath\<close> of \<open>node:url\<close>, which throws on a URL it cannot convert.
\<close>

record runtime =
  import_meta_url :: string
  argv :: "string list"
  fileURLToPath :: "string \<Rightarrow> err + string"

datatype cli_call = RunApp ServerOptions

text \<open>
  \<open>process.argv[1]\<close> inside a template literal: a missing element reads as
  \<open>undefined\<close> and is printed so.
\<close>

definition argv1 :: "string list \<Rightarrow> string" where
  "argv1 av = (if 1 < length av then av ! 1 else ''undefined'')"

text \<open>
  The statement after \<open>defineAgent\<close>: the calls to the CLI runner it issues, or the
  error thrown while building the argument.
\<close>

definition cli_bootstrap :: "runtime \<Rightarrow> err + cli_call list" where
  "cli_bootstrap rt =
     (if import_meta_url rt = ''file://'' @ argv1 (argv rt)
      then (case fileURLToPath rt (import_meta_url rt) of
              Inl e \<Rightarrow> Inl e
            | Inr path \<Rightarrow> Inr [RunApp \<lparr>ServerOptions.agent = path\<rparr>])
      else Inr [])"

text \<open>
  The module is the program's designated entry file when its own resolved path, which
  the module computes as \<open>fileURLToPath(import.meta.url)\<close>, is the file the program was
  run on, \<open>process.argv[1]\<close>.
\<close>

definition designated_entry_file :: "runtime \<Rightarrow> bool" where
  "designated_entry_file rt =
     (1 < length (argv rt) \<and> fileURLToPath rt (import_meta_url rt) = Inr (argv rt ! 1))"

text \<open>
  Node's \<open>fileURLToPath\<close> on a POSIX system, for URLs of the form \<open>file:///...\<close>: the
  path is the part after the empty host, with every \<open>%XY\<close> escape decoded.
\<close>

definition hex_val :: "char \<Rightarrow> nat option" where
  "hex_val c =
     (let n = (of_char c :: nat) in
      if 48 \<le> n \<and> n \<le> 57 then Some (n - 48)
      else if 65 \<le> n \<and> n \<le> 70 then Some (n - 55)
      else if 97 \<le> n \<and> n \<le> 102 then Some (n - 87)
      else None)"

fun percent_decode :: "string \<Rightarrow> string" where
  "percent_decode (c # a # b # cs) =
     (if c = CHR ''%'' then
        (case (hex_val a, hex_val b) of
           (Some x, Some y) \<Rightarrow> char_of (16 * x + y) # percent_decode cs
         | _ \<Rightarrow> c # percent_decode (a # b # cs))
      else c # percent_decode (a # b # cs))"
| "percent_decode cs = cs"

fun encoded_slash :: "string \<Rightarrow> bool" where
  "encoded_slash (c # a # b # cs) =
     (if c = CHR ''%'' \<and> a = CHR ''2'' \<and> (b = CHR ''f'' \<or> b = CHR ''F'') then True
      else encoded_slash (a # b # cs))"
| "encoded_slash cs = False"

definition posix_fileURLToPath :: "string \<Rightarrow> err + string" where
  "posix_fileURLToPath u =
     (if take 7 u \<noteq> ''file://'' then Inl (Err ''ERR_INVALID_URL_SCHEME'')
      else if take 1 (drop 7 u) \<noteq> ''/'' then Inl (Err ''ERR_INVALID_FILE_URL_HOST'')
      else if encoded_slash (drop 7 u) then Inl (Err ''ERR_INVALID_FILE_URL_PATH'')
      else Inr (percent_decode (drop 7 u)))"

subsection \<open>Example worlds\<close>

text \<open>A world in which every call completes; the greeting's playout never settles.\<close>

definition deps_ok :: deps where
  "deps_ok = \<lparr>voice_Agent = (\<lambda>_. Done), openai_STT = (\<lambda>_. Done), openai_LLM = (\<lambda>_. Done),
     elevenlabs_TTS = (\<lambda>_. Done), voice_AgentSession = (\<lambda>_. Done),
     start = (\<lambda>_ _. Done), say = (\<lambda>_ _. Done),
     say_handle = (\<lambda>_ _. \<lparr>waitForPlayout = Pending\<rparr>)\<rparr>"

text \<open>The same world, except that starting a session is rejected.\<close>

definition deps_start_rejected :: deps where
  "deps_start_rejected = deps_ok\<lparr>start := (\<lambda>_ _. Fails (Err ''session start failed''))\<rparr>"

text \<open>The same world, except that the STT plugin throws for want of an API key.\<close>

definition deps_stt_throws :: deps where
  "deps_stt_throws = deps_ok\<lparr>openai_STT := (\<lambda>_. Fails (Err ''OpenAI API key is required''))\<rparr>"

definition ctx_ok :: JobContext where
  "ctx_ok = \<lparr>room = Room ''lobby'', connect = Done\<rparr>"

definition ctx_other :: JobContext where
  "ctx_other = \<lparr>room = Room ''kitchen'', connect = Done\<rparr>"

definition ctx_refused :: JobContext where
  "ctx_refused = \<lparr>room = Room ''lobby'', connect = Fails (Err ''connection refused'')\<rparr>"

text \<open>
  The module run as the main program from a directory whose name has a space:
  \<open>node "/srv/voice agent/agent.js" dev\<close>.
\<close>

definition rt_space :: runtime where
  "rt_space = \<lparr>import_meta_url = ''file:///srv/voice%20agent/agent.js'',
     argv = [''/usr/bin/node'', ''/srv/voice agent/agent.js'', ''dev''],
     fileURLToPath = posix_fileURLToPath\<rparr>"

text \<open>The module run as the main program from a plain path: \<open>node /srv/app/agent.js dev\<close>.\<close>

definition rt_plain :: runtime where
  "rt_plain = \<lparr>import_meta_url = ''file:///srv/app/agent.js'',
     argv = [''/usr/bin/node'', ''/srv/app/agent.js'', ''dev''],
     fileURLToPath = posix_fileURLToPath\<rparr>"

section \<open>Properties\<close>

subsection \<open>The run is the script, cut at the first call that does not complete\<close>

lemma run_follow: "run d ctx = follow (outcome_of d) (bootstrap_sequence ctx)"
  unfolding run_def entry_def bootstrap_sequence_def
  by (simp add: bind_act_def return_act_def perform_def outcome_of_def
      ctx_connect_def new_Agent_def new_STT_def new_LLM_def new_TTS_def
      new_AgentSession_def session_start_def session_say_def
      split: outcome.splits)

lemma follow_prefix: "prefix (snd (follow f cs)) cs"
  by (induction cs) (auto split: outcome.splits)

lemma follow_all_done: "(\<forall>c \<in> set cs. f c = Done) \<Longrightarrow> follow f cs = (Fulfilled (), cs)"
  by (induction cs) auto

lemma follow_fulfilled:
  "fst (follow f cs) = Fulfilled () \<Longrightarrow> snd (follow f cs) = cs \<and> (\<forall>c \<in> set cs. f c = Done)"
  by (induction cs) (auto split: outcome.splits)

lemma calls_follow: "calls d ctx = snd (follow (outcome_of d) (bootstrap_sequence ctx))"
  by (simp add: calls_def run_follow)

lemma result_follow: "result d ctx = fst (follow (outcome_of d) (bootstrap_sequence ctx))"
  by (simp add: result_def run_follow)

lemma follow_failure_last:
  "c \<in> set (snd (follow f cs)) \<Longrightarrow> f c = Fails e \<Longrightarrow>
   fst (follow f cs) = Rejected e \<and> last (snd (follow f cs)) = c"
proof (induction cs)
  case Nil
  then show ?case by simp
next
  case (Cons a cs)
  show ?case
  proof (cases "f a")
    case Done
    with Cons.prems have "c \<in> set (snd (follow f cs))" by auto
    with Cons have "fst (follow f cs) = Rejected e \<and> last (snd (follow f cs)) = c" by simp
    moreover from \<open>c \<in> set (snd (follow f cs))\<close> have "snd (follow f cs) \<noteq> []" by auto
    ultimately show ?thesis using Done by simp
  next
    case (Fails e')
    with Cons.prems show ?thesis by auto
  next
    case Never
    with Cons.prems show ?thesis by auto
  qed
qed

lemma follow_stops:
  "snd (follow f cs) = xs @ c # ys \<Longrightarrow> f c \<noteq> Done \<Longrightarrow> ys = []"
proof (induction cs arbitrary: xs)
  case Nil
  then show ?case by simp
next
  case (Cons a cs)
  show ?case
  proof (cases "f a")
    case Done
    with Cons.prems have eq: "a # snd (follow f cs) = xs @ c # ys" by simp
    show ?thesis
    proof (cases xs)
      case Nil
      with eq Cons.prems Done show ?thesis by simp
    next
      case (Cons x xs')
      with eq have "snd (follow f cs) = xs' @ c # ys" by simp
      with Cons.IH Cons.prems show ?thesis by blast
    qed
  next
    case (Fails e')
    with Cons.prems show ?thesis by (cases xs) auto
  next
    case Never
    with Cons.prems show ?thesis by (cases xs) auto
  qed
qed

lemma bootstrap_distinct: "distinct (bootstrap_sequence ctx)"
  by (simp add: bootstrap_sequence_def)

lemma prefix_distinct: "prefix xs ys \<Longrightarrow> distinct ys \<Longrightarrow> distinct xs"
  by (auto simp: prefix_def)

text \<open>What \<open>never_before\<close> says of a call inside a list.\<close>

lemma never_before_split:
  "never_before Q P (xs @ c # ys) \<Longrightarrow> Q c \<Longrightarrow> \<exists>p \<in> set xs. P p"
  by (induction xs) (auto split: if_splits)

text \<open>The handle \<open>say\<close> returns has no part in how any call completes.\<close>

lemma outcome_of_say_handle: "outcome_of (d\<lparr>say_handle := h\<rparr>) = outcome_of d"
  by (rule ext) (simp add: outcome_of_def split: call.splits)

subsection \<open>The example worlds, evaluated\<close>

lemma all_done_ok: "\<forall>c \<in> set (bootstrap_sequence ctx_ok). outcome_of deps_ok c = Done"
  by (simp add: bootstrap_sequence_def outcome_of_def deps_ok_def ctx_ok_def)

lemma result_ok: "result deps_ok ctx_ok = Fulfilled ()"
  by (simp add: result_follow follow_all_done all_done_ok)

lemma calls_ok: "calls deps_ok ctx_ok = bootstrap_sequence ctx_ok"
  by (simp add: calls_follow follow_all_done all_done_ok)

lemma calls_other: "calls deps_ok ctx_other = bootstrap_sequence ctx_other"
  by (simp add: calls_follow bootstrap_sequence_def outcome_of_def deps_ok_def ctx_other_def)

lemma calls_refused: "calls deps_ok ctx_refused = [CtxConnect ctx_refused]"
  by (simp add: calls_follow bootstrap_sequence_def outcome_of_def ctx_refused_def)

lemma calls_start_rejected:
  "calls deps_start_rejected ctx_ok = butlast (bootstrap_sequence ctx_ok)"
  by (simp add: calls_follow bootstrap_sequence_def outcome_of_def
      deps_start_rejected_def deps_ok_def ctx_ok_def)

lemma calls_stt_throws:
  "calls deps_stt_throws ctx_ok = take 3 (bootstrap_sequence ctx_ok)"
  by (simp add: calls_follow bootstrap_sequence_def outcome_of_def
      deps_stt_throws_def deps_ok_def ctx_ok_def)

lemma char_of_space: "char_of (32::nat) = CHR '' ''"
  by code_simp

text \<open>From a plain path the guard holds and the CLI runner is started on the module's path.\<close>

lemma cli_bootstrap_plain_path:
  "designated_entry_file rt_plain
   \<and> cli_bootstrap rt_plain = Inr [RunApp \<lparr>ServerOptions.agent = ''/srv/app/agent.js''\<rparr>]"
  by (simp add: designated_entry_file_def cli_bootstrap_def rt_plain_def argv1_def
      posix_fileURLToPath_def)

subsection \<open>The bootstrap sequence\<close>

text \<open>
  C1, as amended. Every run issues the calls of the five-step sequence in its order and
  nothing else: the calls of a run are the sequence cut right after the first call that
  fails or never completes, so they are an initial segment of it, and the whole of it
  when every call completes. In every run the session is not started unless the
  context's connect was called earlier and completed, and the session is not constructed
  unless each of the three providers was constructed earlier.
\<close>

theorem entry_follows_bootstrap_sequence:
  "run d ctx = follow (outcome_of d) (bootstrap_sequence ctx)
   \<and> prefix (calls d ctx) (bootstrap_sequence ctx)
   \<and> ((\<forall>c \<in> set (bootstrap_sequence ctx). outcome_of d c = Done) \<longrightarrow>
        run d ctx = (Fulfilled (), bootstrap_sequence ctx))
   \<and> never_before is_start (\<lambda>c. c = CtxConnect ctx \<and> connect ctx = Done) (calls d ctx)
   \<and> never_before is_new_session is_new_stt (calls d ctx)
   \<and> never_before is_new_session is_new_llm (calls d ctx)
   \<and> never_before is_new_session is_new_tts (calls d ctx)"
proof -
  have 1: "run d ctx = follow (outcome_of d) (bootstrap_sequence ctx)"
    by (rule run_follow)
  have 2: "prefix (calls d ctx) (bootstrap_sequence ctx)"
    by (simp add: calls_follow follow_prefix)
  have 3: "(\<forall>c \<in> set (bootstrap_sequence ctx). outcome_of d c = Done) \<longrightarrow>
        run d ctx = (Fulfilled (), bootstrap_sequence ctx)"
    by (simp add: run_follow follow_all_done)
  have 4: "never_before is_start (\<lambda>c. c = CtxConnect ctx \<and> connect ctx = Done) (calls d ctx)"
    by (simp add: calls_follow bootstrap_sequence_def outcome_of_def split: outcome.splits)
  have 5: "never_before is_new_session is_new_stt (calls d ctx)"
    by (simp add: calls_follow bootstrap_sequence_def split: outcome.splits)
  have 6: "never_before is_new_session is_new_llm (calls d ctx)"
    by (simp add: calls_follow bootstrap_sequence_def split: outcome.splits)
  have 7: "never_before is_new_session is_new_tts (calls d ctx)"
    by (simp add: calls_follow bootstrap_sequence_def split: outcome.splits)
  from 1 2 3 4 5 6 7 show ?thesis by blast
qed

theorem entry_follows_bootstrap_sequence_witness:
  "run deps_ok ctx_ok = (Fulfilled (), bootstrap_sequence ctx_ok)"
  using entry_follows_bootstrap_sequence [where d = deps_ok and ctx = ctx_ok] all_done_ok by blast

text \<open>
  A context whose connect is refused: the run issues the connect call and nothing else,
  which is not the five-step sequence.
\<close>

theorem refused_connect_cuts_sequence:
  "calls deps_ok ctx_refused = [CtxConnect ctx_refused]
   \<and> calls deps_ok ctx_refused \<noteq> bootstrap_sequence ctx_refused"
  by (simp add: calls_refused bootstrap_sequence_def)

subsection \<open>A successful run\<close>

text \<open>
  C2. In every run of \<open>entry\<close> that succeeds, the context's connect call resolved, the
  agent is constructed with the instructions
  "You are a helpful voice assistant. Keep responses concise.", the session is started
  exactly once, on that agent and the context's room, and \<open>say\<close> is called exactly once,
  with the text "Hello! How can I help you today?".
\<close>

theorem successful_run_literals:
  "result d ctx = Fulfilled () \<Longrightarrow>
   connect ctx = Done
   \<and> filter is_new_agent (calls d ctx) = [NewAgent \<lparr>instructions = ''You are a helpful voice assistant. Keep responses concise.''\<rparr>]
   \<and> filter is_new_session (calls d ctx) = [NewAgentSession \<lparr>stt = STT None, llm = LLM \<lparr>model = ''gpt-4''\<rparr>, tts = TTS None\<rparr>]
   \<and> filter is_start (calls d ctx) =
       [SessionStart (AgentSession \<lparr>stt = STT None, llm = LLM \<lparr>model = ''gpt-4''\<rparr>, tts = TTS None\<rparr>)
          \<lparr>agent = Agent \<lparr>instructions = ''You are a helpful voice assistant. Keep responses concise.''\<rparr>, StartOptions.room = room ctx\<rparr>]
   \<and> filter is_say (calls d ctx) = [SessionSay (AgentSession \<lparr>stt = STT None, llm = LLM \<lparr>model = ''gpt-4''\<rparr>, tts = TTS None\<rparr>) ''Hello! How can I help you today?'']"
proof -
  assume "result d ctx = Fulfilled ()"
  then have "snd (follow (outcome_of d) (bootstrap_sequence ctx)) = bootstrap_sequence ctx
     \<and> (\<forall>c \<in> set (bootstrap_sequence ctx). outcome_of d c = Done)"
    using follow_fulfilled [of "outcome_of d" "bootstrap_sequence ctx"]
    by (simp add: result_follow)
  then have c: "calls d ctx = bootstrap_sequence ctx"
    and o: "outcome_of d (CtxConnect ctx) = Done"
    by (simp_all add: calls_follow bootstrap_sequence_def)
  from o have "connect ctx = Done" by (simp add: outcome_of_def)
  then show ?thesis by (simp add: c bootstrap_sequence_def)
qed

theorem successful_run_literals_witness:
  "result deps_ok ctx_ok = Fulfilled ()
   \<and> filter is_start (calls deps_ok ctx_ok) =
       [SessionStart (AgentSession \<lparr>stt = STT None, llm = LLM \<lparr>model = ''gpt-4''\<rparr>, tts = TTS None\<rparr>)
          \<lparr>agent = Agent \<lparr>instructions = ''You are a helpful voice assistant. Keep responses concise.''\<rparr>, StartOptions.room = Room ''lobby''\<rparr>]
   \<and> filter is_say (calls deps_ok ctx_ok) = [SessionSay (AgentSession \<lparr>stt = STT None, llm = LLM \<lparr>model = ''gpt-4''\<rparr>, tts = TTS None\<rparr>) ''Hello! How can I help you today?'']"
proof -
  have r: "room ctx_ok = Room ''lobby''" by (simp add: ctx_ok_def)
  show ?thesis using result_ok successful_run_literals [OF result_ok] by (simp add: r)
qed

subsection \<open>The providers of the session\<close>

text \<open>
  C3. In every run, the session is constructed on exactly one STT provider, one LLM
  provider with the model "gpt-4" and one TTS provider: whenever the session is
  constructed, its argument holds these three, it is the only session constructed, and
  exactly one provider of each kind has been constructed, the STT and the TTS provider
  without any options. Every run that succeeds constructs the session.
\<close>

theorem session_providers:
  "(\<forall>opts. NewAgentSession opts \<in> set (calls d ctx) \<longrightarrow>
      opts = \<lparr>stt = STT None, llm = LLM \<lparr>model = ''gpt-4''\<rparr>, tts = TTS None\<rparr>
      \<and> filter is_new_session (calls d ctx) = [NewAgentSession opts]
      \<and> filter is_new_stt (calls d ctx) = [NewSTT None]
      \<and> filter is_new_llm (calls d ctx) = [NewLLM \<lparr>model = ''gpt-4''\<rparr>]
      \<and> filter is_new_tts (calls d ctx) = [NewTTS None])
   \<and> (result d ctx = Fulfilled () \<longrightarrow> NewAgentSession \<lparr>stt = STT None, llm = LLM \<lparr>model = ''gpt-4''\<rparr>, tts = TTS None\<rparr> \<in> set (calls d ctx))"
proof -
  have a: "\<forall>opts. NewAgentSession opts \<in> set (calls d ctx) \<longrightarrow>
      opts = \<lparr>stt = STT None, llm = LLM \<lparr>model = ''gpt-4''\<rparr>, tts = TTS None\<rparr>
      \<and> filter is_new_session (calls d ctx) = [NewAgentSession opts]
      \<and> filter is_new_stt (calls d ctx) = [NewSTT None]
      \<and> filter is_new_llm (calls d ctx) = [NewLLM \<lparr>model = ''gpt-4''\<rparr>]
      \<and> filter is_new_tts (calls d ctx) = [NewTTS None]"
    by (simp add: calls_follow bootstrap_sequence_def split: outcome.splits)
  have b: "result d ctx = Fulfilled () \<longrightarrow> NewAgentSession \<lparr>stt = STT None, llm = LLM \<lparr>model = ''gpt-4''\<rparr>, tts = TTS None\<rparr> \<in> set (calls d ctx)"
    by (simp add: calls_follow result_follow bootstrap_sequence_def split: outcome.splits)
  from a b show ?thesis by blast
qed

theorem session_providers_witness:
  "result deps_ok ctx_ok = Fulfilled ()
   \<and> NewAgentSession \<lparr>stt = STT None, llm = LLM \<lparr>model = ''gpt-4''\<rparr>, tts = TTS None\<rparr> \<in> set (calls deps_ok ctx_ok)
   \<and> filter is_new_session (calls deps_ok ctx_ok) = [NewAgentSession \<lparr>stt = STT None, llm = LLM \<lparr>model = ''gpt-4''\<rparr>, tts = TTS None\<rparr>]
   \<and> filter is_new_stt (calls deps_ok ctx_ok) = [NewSTT None]
   \<and> filter is_new_llm (calls deps_ok ctx_ok) = [NewLLM \<lparr>model = ''gpt-4''\<rparr>]
   \<and> filter is_new_tts (calls deps_ok ctx_ok) = [NewTTS None]"
  using session_providers [where d = deps_ok and ctx = ctx_ok] result_ok by blast

subsection \<open>The greeting\<close>

text \<open>
  C4, as amended. In every run the greeting is enqueued at most once, and exactly once
  when every call before it completes; in every run it is not enqueued unless the
  session start was called earlier and completed.
\<close>

theorem greeting_once_after_start:
  "length (filter is_say (calls d ctx)) \<le> 1
   \<and> ((\<forall>c \<in> set (butlast (bootstrap_sequence ctx)). outcome_of d c = Done) \<longrightarrow>
        length (filter is_say (calls d ctx)) = 1)
   \<and> never_before is_say (\<lambda>c. is_start c \<and> outcome_of d c = Done) (calls d ctx)"
proof -
  have a: "length (filter is_say (calls d ctx)) \<le> 1"
    by (simp add: calls_follow bootstrap_sequence_def split: outcome.splits)
  have b: "(\<forall>c \<in> set (butlast (bootstrap_sequence ctx)). outcome_of d c = Done) \<longrightarrow>
        length (filter is_say (calls d ctx)) = 1"
    by (simp add: calls_follow bootstrap_sequence_def split: outcome.splits)
  have c: "never_before is_say (\<lambda>c. is_start c \<and> outcome_of d c = Done) (calls d ctx)"
    by (simp add: calls_follow bootstrap_sequence_def split: outcome.splits)
  from a b c show ?thesis by blast
qed

theorem greeting_once_after_start_witness:
  "length (filter is_say (calls deps_ok ctx_ok)) = 1"
proof -
  have "\<forall>c \<in> set (butlast (bootstrap_sequence ctx_ok)). outcome_of deps_ok c = Done"
    using all_done_ok by (simp add: bootstrap_sequence_def)
  with greeting_once_after_start [where d = deps_ok and ctx = ctx_ok] show ?thesis by blast
qed

text \<open>A run in which the session start is rejected: the greeting is not enqueued at all.\<close>

theorem greeting_missing_when_start_rejected:
  "length (filter is_say (calls deps_start_rejected ctx_ok)) = 0
   \<and> length (filter is_say (calls deps_start_rejected ctx_ok)) \<noteq> 1"
  by (simp add: calls_start_rejected bootstrap_sequence_def)

subsection \<open>The connection\<close>

text \<open>
  C5. For every job context, \<open>entry\<close> calls the context's connect exactly once, as its
  first call, and calls no other connect: one outbound room connection per run. The
  session is not constructed unless that connect call was issued earlier.
\<close>

theorem connect_once_before_session:
  "filter is_connect (calls d ctx) = [CtxConnect ctx]
   \<and> take 1 (calls d ctx) = [CtxConnect ctx]
   \<and> never_before is_new_session (\<lambda>c. c = CtxConnect ctx) (calls d ctx)"
  by (simp add: calls_follow bootstrap_sequence_def split: outcome.splits)

subsection \<open>The CLI guard\<close>

text \<open>
  C6, at an input where the code misses it. The module is the program's designated entry
  file, run from a path with a space in it, and the CLI bootstrap does not execute: the
  guard compares \<open>import.meta.url\<close>, in which the space is written \<open>%20\<close>, with
  \<open>file://\<close> followed by the raw path.
\<close>

theorem cli_guard_misses_entry_file:
  "designated_entry_file rt_space \<and> cli_bootstrap rt_space = Inr []"
  by (simp add: designated_entry_file_def cli_bootstrap_def rt_space_def argv1_def
      posix_fileURLToPath_def hex_val_def char_of_space)

subsection \<open>Failures\<close>

text \<open>
  C7. Every failure of a call \<open>entry\<close> issued goes out of \<open>entry\<close> as it is: the promise
  of \<open>entry\<close> is rejected with the very error the call failed with, the failed call is
  the last call of the run (nothing is tried after it), and no call is issued twice
  (nothing is retried).
\<close>

theorem failures_propagate:
  "c \<in> set (calls d ctx) \<Longrightarrow> outcome_of d c = Fails e \<Longrightarrow>
   result d ctx = Rejected e \<and> last (calls d ctx) = c \<and> distinct (calls d ctx)"
  using follow_failure_last [of c "outcome_of d" "bootstrap_sequence ctx" e]
    prefix_distinct [OF follow_prefix bootstrap_distinct, of "outcome_of d" ctx]
  by (simp add: calls_follow result_follow)

theorem failures_propagate_witness:
  "NewSTT None \<in> set (calls deps_stt_throws ctx_ok)
   \<and> outcome_of deps_stt_throws (NewSTT None) = Fails (Err ''OpenAI API key is required'')
   \<and> result deps_stt_throws ctx_ok = Rejected (Err ''OpenAI API key is required'')
   \<and> last (calls deps_stt_throws ctx_ok) = NewSTT None
   \<and> distinct (calls deps_stt_throws ctx_ok)"
proof -
  have m: "NewSTT None \<in> set (calls deps_stt_throws ctx_ok)"
    by (simp add: calls_stt_throws bootstrap_sequence_def)
  have o: "outcome_of deps_stt_throws (NewSTT None) = Fails (Err ''OpenAI API key is required'')"
    by (simp add: outcome_of_def deps_stt_throws_def deps_ok_def)
  show ?thesis using m o failures_propagate [OF m o] by simp
qed

text \<open>
  C8. When a call does not complete, no later step is performed: the call is the last
  one of the run. When the connect fails, the run is the connect call alone, so no agent,
  provider, session or utterance is created; when the session start fails, the greeting
  is not enqueued.
\<close>

theorem failed_step_stops_run:
  "(connect ctx \<noteq> Done \<longrightarrow> calls d ctx = [CtxConnect ctx])
   \<and> (\<forall>session opts. SessionStart session opts \<in> set (calls d ctx)
         \<and> start d session opts \<noteq> Done \<longrightarrow> filter is_say (calls d ctx) = [])
   \<and> (\<forall>xs c ys. calls d ctx = xs @ c # ys \<and> outcome_of d c \<noteq> Done \<longrightarrow> ys = [])"
proof -
  have a: "connect ctx \<noteq> Done \<longrightarrow> calls d ctx = [CtxConnect ctx]"
    by (simp add: calls_follow bootstrap_sequence_def outcome_of_def split: outcome.splits)
  have b: "\<forall>session opts. SessionStart session opts \<in> set (calls d ctx)
         \<and> start d session opts \<noteq> Done \<longrightarrow> filter is_say (calls d ctx) = []"
    by (simp add: calls_follow bootstrap_sequence_def outcome_of_def split: outcome.splits)
  have c: "\<forall>xs c ys. calls d ctx = xs @ c # ys \<and> outcome_of d c \<noteq> Done \<longrightarrow> ys = []"
    using follow_stops [of "outcome_of d" "bootstrap_sequence ctx"]
    by (simp add: calls_follow)
  from a b c show ?thesis by blast
qed

theorem failed_step_stops_run_witness:
  "connect ctx_refused \<noteq> Done
   \<and> calls deps_ok ctx_refused = [CtxConnect ctx_refused]
   \<and> SessionStart (AgentSession \<lparr>stt = STT None, llm = LLM \<lparr>model = ''gpt-4''\<rparr>, tts = TTS None\<rparr>)
        \<lparr>agent = Agent \<lparr>instructions = ''You are a helpful voice assistant. Keep responses concise.''\<rparr>, StartOptions.room = Room ''lobby''\<rparr>
       \<in> set (calls deps_start_rejected ctx_ok)
   \<and> start deps_start_rejected (AgentSession \<lparr>stt = STT None, llm = LLM \<lparr>model = ''gpt-4''\<rparr>, tts = TTS None\<rparr>)
        \<lparr>agent = Agent \<lparr>instructions = ''You are a helpful voice assistant. Keep responses concise.''\<rparr>, StartOptions.room = Room ''lobby''\<rparr> \<noteq> Done
   \<and> filter is_say (calls deps_start_rejected ctx_ok) = []"
proof -
  have c: "connect ctx_refused \<noteq> Done" by (simp add: ctx_refused_def)
  have r: "room ctx_ok = Room ''lobby''" by (simp add: ctx_ok_def)
  have m: "SessionStart (AgentSession \<lparr>stt = STT None, llm = LLM \<lparr>model = ''gpt-4''\<rparr>, tts = TTS None\<rparr>)
        \<lparr>agent = Agent \<lparr>instructions = ''You are a helpful voice assistant. Keep responses concise.''\<rparr>, StartOptions.room = Room ''lobby''\<rparr>
       \<in> set (calls deps_start_rejected ctx_ok)"
    by (simp add: calls_start_rejected bootstrap_sequence_def r)
  have f: "start deps_start_rejected (AgentSession \<lparr>stt = STT None, llm = LLM \<lparr>model = ''gpt-4''\<rparr>, tts = TTS None\<rparr>)
        \<lparr>agent = Agent \<lparr>instructions = ''You are a helpful voice assistant. Keep responses concise.''\<rparr>, StartOptions.room = Room ''lobby''\<rparr> \<noteq> Done"
    by (simp add: deps_start_rejected_def)
  from c failed_step_stops_run [where d = deps_ok and ctx = ctx_refused]
  have 1: "calls deps_ok ctx_refused = [CtxConnect ctx_refused]" by blast
  from m f failed_step_stops_run [where d = deps_start_rejected and ctx = ctx_ok]
  have 2: "filter is_say (calls deps_start_rejected ctx_ok) = []" by blast
  from c m f 1 2 show ?thesis by blast
qed

subsection \<open>The greeting is not awaited\<close>

text \<open>
  C9. \<open>entry\<close> does not await the greeting and drops the handle \<open>say\<close> returns: whatever
  that handle is, and however its playout settles, the run is the same; and when every
  call completes, the promise of \<open>entry\<close> is fulfilled with the \<open>say\<close> call as the last
  call issued, also when the playout of the greeting never completes.
\<close>

theorem greeting_not_awaited:
  "run (d\<lparr>say_handle := h\<rparr>) ctx = run d ctx
   \<and> ((\<forall>c \<in> set (bootstrap_sequence ctx). outcome_of d c = Done) \<longrightarrow>
        result (d\<lparr>say_handle := (\<lambda>_ _. \<lparr>waitForPlayout = Pending\<rparr>)\<rparr>) ctx = Fulfilled ()
        \<and> last (calls (d\<lparr>say_handle := (\<lambda>_ _. \<lparr>waitForPlayout = Pending\<rparr>)\<rparr>) ctx)
            = last (bootstrap_sequence ctx)
        \<and> is_say (last (bootstrap_sequence ctx)))"
proof -
  have a: "run (d\<lparr>say_handle := h\<rparr>) ctx = run d ctx"
    by (simp add: run_follow outcome_of_say_handle)
  have b: "(\<forall>c \<in> set (bootstrap_sequence ctx). outcome_of d c = Done) \<longrightarrow>
        result (d\<lparr>say_handle := (\<lambda>_ _. \<lparr>waitForPlayout = Pending\<rparr>)\<rparr>) ctx = Fulfilled ()
        \<and> last (calls (d\<lparr>say_handle := (\<lambda>_ _. \<lparr>waitForPlayout = Pending\<rparr>)\<rparr>) ctx)
            = last (bootstrap_sequence ctx)"
    by (simp add: result_def calls_def run_follow outcome_of_say_handle follow_all_done)
  have c: "is_say (last (bootstrap_sequence ctx))"
    by (simp add: bootstrap_sequence_def)
  from a b c show ?thesis by blast
qed

theorem greeting_not_awaited_witness:
  "result (deps_ok\<lparr>say_handle := (\<lambda>_ _. \<lparr>waitForPlayout = Pending\<rparr>)\<rparr>) ctx_ok = Fulfilled ()
   \<and> last (calls (deps_ok\<lparr>say_handle := (\<lambda>_ _. \<lparr>waitForPlayout = Pending\<rparr>)\<rparr>) ctx_ok)
       = SessionSay (AgentSession \<lparr>stt = STT None, llm = LLM \<lparr>model = ''gpt-4''\<rparr>, tts = TTS None\<rparr>) ''Hello! How can I help you today?''"
proof -
  have l: "last (bootstrap_sequence ctx_ok) = SessionSay (AgentSession \<lparr>stt = STT None, llm = LLM \<lparr>model = ''gpt-4''\<rparr>, tts = TTS None\<rparr>) ''Hello! How can I help you today?''"
    by (simp add: bootstrap_sequence_def)
  from greeting_not_awaited [where d = deps_ok and ctx = ctx_ok] all_done_ok l show ?thesis by simp
qed

subsection \<open>The constants do not depend on the context\<close>

text \<open>
  C10. The instructions, the model identifier and the greeting text a run configures are
  the literals of the module, whatever the context and the world: the settings of every
  run are an initial segment of the same three constants, all three in a run that
  succeeds, and two runs that issue equally many calls configure the same settings,
  whatever their contexts.
\<close>

theorem constants_independent_of_context:
  "prefix (settings (calls d ctx)) [Instructions ''You are a helpful voice assistant. Keep responses concise.'', Model ''gpt-4'', Greeting ''Hello! How can I help you today?'']
   \<and> (length (calls d ctx) = length (calls d' ctx') \<longrightarrow>
        settings (calls d ctx) = settings (calls d' ctx'))
   \<and> (result d ctx = Fulfilled () \<longrightarrow>
        settings (calls d ctx) = [Instructions ''You are a helpful voice assistant. Keep responses concise.'', Model ''gpt-4'', Greeting ''Hello! How can I help you today?''])"
proof -
  have a: "prefix (settings (calls d ctx)) [Instructions ''You are a helpful voice assistant. Keep responses concise.'', Model ''gpt-4'', Greeting ''Hello! How can I help you today?'']"
    by (simp add: settings_def calls_follow bootstrap_sequence_def split: outcome.splits)
  have b: "length (calls d ctx) = length (calls d' ctx') \<longrightarrow>
        settings (calls d ctx) = settings (calls d' ctx')"
    by (simp add: settings_def calls_follow bootstrap_sequence_def split: outcome.splits)
  have c: "result d ctx = Fulfilled () \<longrightarrow>
        settings (calls d ctx) = [Instructions ''You are a helpful voice assistant. Keep responses concise.'', Model ''gpt-4'', Greeting ''Hello! How can I help you today?'']"
    by (simp add: settings_def calls_follow result_follow bootstrap_sequence_def
        split: outcome.splits)
  from a b c show ?thesis by blast
qed

theorem constants_independent_of_context_witness:
  "room ctx_ok \<noteq> room ctx_other
   \<and> length (calls deps_ok ctx_ok) = length (calls deps_ok ctx_other)
   \<and> settings (calls deps_ok ctx_ok) = settings (calls deps_ok ctx_other)
   \<and> settings (calls deps_ok ctx_ok) = [Instructions ''You are a helpful voice assistant. Keep responses concise.'', Model ''gpt-4'', Greeting ''Hello! How can I help you today?'']"
proof -
  have r: "room ctx_ok \<noteq> room ctx_other" by (simp add: ctx_ok_def ctx_other_def)
  have l: "length (calls deps_ok ctx_ok) = length (calls deps_ok ctx_other)"
    by (simp add: calls_ok calls_other bootstrap_sequence_def)
  from constants_independent_of_context [where d = deps_ok and ctx = ctx_ok and d' = deps_ok and ctx' = ctx_other] r l result_ok
  show ?thesis by blast
qed

end
